theory Spec2Isabelle
  imports Main
begin

section \<open>Python values and exceptions\<close>

text \<open>
  The step definitions of \<^verbatim>\<open>features/steps/integration_binding.py\<close> are embedded as
  HOL functions. A raise of the source is a value \<open>Inl e\<close> of a sum type, a normal return
  is \<open>Inr r\<close>. Python's \<^verbatim>\<open>None\<close> where a string or an enum member is expected is the
  \<open>None\<close> of an option type.
\<close>

datatype py_error = KeyError | AssertionError | ValueError | TypeError | OtherException string

text \<open>Subscription \<^verbatim>\<open>d[k]\<close> of a dict written as an association list, and \<^verbatim>\<open>k in d\<close>.\<close>

definition getitem :: "('k \<times> 'v) list \<Rightarrow> 'k \<Rightarrow> py_error + 'v" where
  "getitem d k = (case map_of d k of None \<Rightarrow> Inl KeyError | Some v \<Rightarrow> Inr v)"

definition contains :: "('k \<times> 'v) list \<Rightarrow> 'k \<Rightarrow> bool" where
  "contains d k = (k \<in> set (map fst d))"

text \<open>\<^verbatim>\<open>s.startswith(p)\<close>.\<close>

definition startswith :: "string \<Rightarrow> string \<Rightarrow> bool" where
  "startswith s p = (take (length p) s = p)"

section \<open>Error Classifier\<close>

text \<open>
  \<^verbatim>\<open>class ErrorCategory(Enum)\<close> with its six members; \<open>ErrorCategory_members\<close> is the
  enum's \<^verbatim>\<open>__members__\<close> mapping from member name to member, \<open>ERROR_ALIASES\<close> the
  module's alias table, both in source order.
\<close>

datatype ErrorCategory =
    divide_by_zero
  | modulus_by_zero
  | no_such_overload
  | integer_overflow
  | undeclared_reference
  | unknown_variable

definition ErrorCategory_members :: "(string \<times> ErrorCategory) list" where
  "ErrorCategory_members =
    [(''divide_by_zero'', divide_by_zero),
     (''modulus_by_zero'', modulus_by_zero),
     (''no_such_overload'', no_such_overload),
     (''integer_overflow'', integer_overflow),
     (''undeclared_reference'', undeclared_reference),
     (''unknown_variable'', unknown_variable)]"

definition ERROR_ALIASES :: "(string \<times> ErrorCategory) list" where
  "ERROR_ALIASES =
    [(''division by zero'', divide_by_zero),
     (''divide by zero'', divide_by_zero),
     (''modulus by zero'', modulus_by_zero),
     (''no such overload'', no_such_overload),
     (''no matching overload'', no_such_overload),
     (''return error for overflow'', integer_overflow),
     (''unknown varaible'', unknown_variable)]"

text \<open>
  \<^verbatim>\<open>error_category(text)\<close>: member name, then alias, then the prefix rule; a text that
  matches none of them falls off the end of the function, which returns \<^verbatim>\<open>None\<close>.
\<close>

definition error_category :: "string \<Rightarrow> py_error + ErrorCategory option" where
  "error_category text =
    (if contains ErrorCategory_members text then
       map_sum id Some (getitem ErrorCategory_members text)
     else if contains ERROR_ALIASES text then
       map_sum id Some (getitem ERROR_ALIASES text)
     else if startswith text ''undeclared reference'' then
       Inr (Some undeclared_reference)
     else Inr None)"

text \<open>\<^verbatim>\<open>x or ""\<close> for \<^verbatim>\<open>x\<close> a string or \<^verbatim>\<open>None\<close>: the empty string is falsy too.\<close>

definition or_empty :: "string option \<Rightarrow> string" where
  "or_empty x = (case x of None \<Rightarrow> [] | Some s \<Rightarrow> if s = [] then [] else s)"

section \<open>Escape Normalizer\<close>

text \<open>
  \<^verbatim>\<open>expand_textproto_escapes(expr_text, quote)\<close>. Its docstring and its two callers fix
  the quote: ``The \<^verbatim>\<open>quote\<close> is either \<^verbatim>\<open>"'"\<close> or \<^verbatim>\<open>'"'\<close>''. For both, the pattern
  \<^verbatim>\<open>re.compile(f"\\\\\\{quote}|.")\<close> is a backslash followed by the quote itself, or else
  \<^verbatim>\<open>.\<close>, which (no \<^verbatim>\<open>re.DOTALL\<close>) is any one character but the line feed.
\<close>

datatype quote = DoubleQuote | SingleQuote

fun quote_chr :: "quote \<Rightarrow> char" where
  "quote_chr DoubleQuote = CHR 0x22"
| "quote_chr SingleQuote = CHR 0x27"

definition backslash :: char where
  "backslash = CHR 0x5C"

definition newline :: char where
  "newline = CHR 0x0A"

text \<open>
  \<^verbatim>\<open>escape_pat.finditer(expr_text)\<close>, as the list of the matched substrings
  (\<^verbatim>\<open>match.group()\<close>), for the pattern with quote \<open>q\<close>. The scan goes left to right
  over non-overlapping matches: at a backslash followed by \<open>q\<close> the first alternative
  matches both characters; otherwise \<^verbatim>\<open>.\<close> matches the one character, unless it is a
  line feed, where nothing matches and the search moves on by one character.
\<close>

fun finditer :: "char \<Rightarrow> string \<Rightarrow> string list" where
  "finditer q [] = []"
| "finditer q [c] = (if c = newline then [] else [[c]])"
| "finditer q (c # d # cs) =
     (if c = backslash \<and> d = q then [c, d] # finditer q cs
      else if c = newline then finditer q (d # cs)
      else [c] # finditer q (d # cs))"

text \<open>\<^verbatim>\<open>replacements.get(m, m)\<close> for the one-entry dict \<^verbatim>\<open>{f"\\{quote}": f"{quote}"}\<close>.\<close>

definition replacements_get :: "char \<Rightarrow> string \<Rightarrow> string" where
  "replacements_get q m = (if m = [backslash, q] then [q] else m)"

definition expand_textproto_escapes :: "string \<Rightarrow> quote \<Rightarrow> string" where
  "expand_textproto_escapes expr_text quote =
     concat (map (replacements_get (quote_chr quote)) (finditer (quote_chr quote) expr_text))"

text \<open>The source's local \<^verbatim>\<open>expansion\<close>, for the quote character \<open>q\<close>.\<close>

definition expansion :: "char \<Rightarrow> string \<Rightarrow> string" where
  "expansion q t = concat (map (replacements_get q) (finditer q t))"

text \<open>
  Two predicates on texts, used to state what the normalizer does: \<open>has_unit q t\<close>, the
  text has a backslash immediately followed by \<open>q\<close>; \<open>has_escaped_unit q t\<close>, the text
  has two backslashes immediately followed by \<open>q\<close>.
\<close>

fun has_unit :: "char \<Rightarrow> string \<Rightarrow> bool" where
  "has_unit q (a # b # cs) = ((a = backslash \<and> b = q) \<or> has_unit q (b # cs))"
| "has_unit q _ = False"

fun has_escaped_unit :: "char \<Rightarrow> string \<Rightarrow> bool" where
  "has_escaped_unit q (a # b # c # cs) =
     ((a = backslash \<and> b = backslash \<and> c = q) \<or> has_escaped_unit q (b # c # cs))"
| "has_escaped_unit q _ = False"

section \<open>Value Model and Translator\<close>

text \<open>
  A \<^verbatim>\<open>Value\<close> is a \<^verbatim>\<open>NamedTuple\<close> of \<^verbatim>\<open>value_type: str\<close> and \<^verbatim>\<open>value: Any\<close>. The
  payload is a string, some other hashable native object (\<open>PyObj\<close>: a number, a bool,
  bytes, \<^verbatim>\<open>None\<close>), or an unhashable one (\<open>PyUnhashable\<close>: a list, a dict);
  \<^verbatim>\<open>cel_value\<close> compares it with string literals only.
\<close>

datatype 'a payload = PyStr string | PyObj 'a | PyUnhashable 'a

datatype 'a Value = Value string "'a payload"

text \<open>
  Modelled from the spec: the values of \<^verbatim>\<open>celpy.celtypes.DoubleType\<close>, a class whose
  source is not part of the given file. ``Double kind recognizes two sentinel payloads
  (\<^verbatim>\<open>"inf"\<close>, \<^verbatim>\<open>"-inf"\<close>) that must translate to positive/negative infinity
  respectively; all other payloads parse as ordinary decimal numbers.'' A double is
  positive infinity, negative infinity, or an ordinary number of the type \<open>'r\<close>.
\<close>

datatype 'r double = PosInf | NegInf | Num 'r

text \<open>
  Modelled from the spec: the unary minus of \<^verbatim>\<open>DoubleType\<close>, the ``additive inverse'':
  it exchanges the two infinities and negates an ordinary number.
\<close>

fun neg :: "'r::uminus double \<Rightarrow> 'r double" where
  "neg PosInf = NegInf"
| "neg NegInf = PosInf"
| "neg (Num r) = Num (- r)"

text \<open>
  Modelled from the spec: the constructor call \<^verbatim>\<open>celpy.celtypes.DoubleType(p)\<close>. The
  payload \<^verbatim>\<open>"inf"\<close> gives positive infinity; the parse of every other payload is left
  to the parameter \<open>parse\<close>, which may raise.
\<close>

definition DoubleType ::
  "('a payload \<Rightarrow> py_error + 'r double) \<Rightarrow> 'a payload \<Rightarrow> py_error + 'r double" where
  "DoubleType parse p = (if p = PyStr ''inf'' then Inr PosInf else parse p)"

text \<open>
  The other constructors of \<^verbatim>\<open>celpy.celtypes\<close> that \<^verbatim>\<open>Value.cel_value\<close> calls are
  parameters: each takes the payload and returns an object of the type \<open>'o\<close> or raises.
  The field \<open>float\<close> is the parse of a double payload other than \<^verbatim>\<open>"inf"\<close>.
\<close>

record ('a, 'r, 'o) celtypes =
  IntType :: "'a payload \<Rightarrow> py_error + 'o"
  UintType :: "'a payload \<Rightarrow> py_error + 'o"
  StringType :: "'a payload \<Rightarrow> py_error + 'o"
  BytesType :: "'a payload \<Rightarrow> py_error + 'o"
  BoolType :: "'a payload \<Rightarrow> py_error + 'o"
  float :: "'a payload \<Rightarrow> py_error + 'r double"

text \<open>The classes that \<^verbatim>\<open>type_mapping\<close> returns, and its table \<^verbatim>\<open>name_to_cel\<close>.\<close>

datatype cel_class =
    class_BoolType | class_BytesType | class_DoubleType | class_DurationType
  | class_IntType | class_ListType | class_MapType | class_NoneType
  | class_StringType | class_TimestampType | class_UintType | class_type

definition name_to_cel :: "(string \<times> cel_class) list" where
  "name_to_cel =
    [(''bool'', class_BoolType),
     (''bytes'', class_BytesType),
     (''double'', class_DoubleType),
     (''duration'', class_DurationType),
     (''int'', class_IntType),
     (''list'', class_ListType),
     (''map'', class_MapType),
     (''null_type'', class_NoneType),
     (''string'', class_StringType),
     (''timestamp'', class_TimestampType),
     (''uint'', class_UintType),
     (''type'', class_type),
     (''google.protobuf.Duration'', class_DurationType),
     (''google.protobuf.Timestamp'', class_TimestampType)]"

text \<open>
  \<^verbatim>\<open>name_to_cel[name]\<close>: the keys of the table are strings, so a hashable payload that
  is no string is a missing key, and an unhashable payload cannot be looked up at all.
\<close>

definition type_mapping :: "'a payload \<Rightarrow> py_error + cel_class" where
  "type_mapping name =
     (case name of
        PyStr s \<Rightarrow> getitem name_to_cel s
      | PyObj x \<Rightarrow> Inl KeyError
      | PyUnhashable x \<Rightarrow> Inl TypeError)"

text \<open>The runtime values that \<^verbatim>\<open>Value.cel_value\<close> returns.\<close>

datatype ('r, 'o) cel = Double "'r double" | Object 'o | NoneValue | Class cel_class

fun cel_value ::
  "('a, 'r::uminus, 'o) celtypes \<Rightarrow> 'a Value \<Rightarrow> py_error + ('r, 'o) cel" where
  "cel_value ct (Value value_type v) =
    (if value_type = ''int64_value'' then map_sum id Object (IntType ct v)
     else if value_type = ''uint64_value'' then map_sum id Object (UintType ct v)
     else if value_type = ''double_value'' then
       (if v = PyStr ''inf'' then
          map_sum id Double (DoubleType (float ct) (PyStr ''inf''))
        else if v = PyStr ''-inf'' then
          map_sum id (\<lambda>x. Double (neg x)) (DoubleType (float ct) (PyStr ''inf''))
        else map_sum id Double (DoubleType (float ct) v))
     else if value_type = ''string_value'' then map_sum id Object (StringType ct v)
     else if value_type = ''bytes_value'' then map_sum id Object (BytesType ct v)
     else if value_type = ''bool_value'' then map_sum id Object (BoolType ct v)
     else if value_type = ''null_value'' then Inr NoneValue
     else if value_type = ''type'' then map_sum id Class (type_mapping v)
     else Inl ValueError)"

subsection \<open>MapValue\<close>

text \<open>
  \<^verbatim>\<open>Entries.key_value\<close> is a list of dicts, \<^verbatim>\<open>MapValue.items\<close> a list of \<^verbatim>\<open>Entries\<close>.
  The objects under \<^verbatim>\<open>"key"\<close> and \<^verbatim>\<open>"value"\<close> are of any class with a \<^verbatim>\<open>cel_value\<close>
  property (\<^verbatim>\<open>Dict[str, Any]\<close>); they are the type \<open>'n\<close>, and the property is the
  parameter \<open>cv\<close> of the translation. Runtime values are the type \<open>'v\<close>.
\<close>

datatype 'n Entries = Entries (key_value: "(string \<times> 'n) list list")

datatype 'n MapValue = MapValue (items: "'n Entries list")

text \<open>
  The dict that the comprehension fills is a list of slots in insertion order; a slot
  holds the hash of the key, taken when the key was inserted, the key and the value.
  Hashing and comparing keys is the business of the classes of the keys, which are not
  in the given file, so both are parameters: \<open>py_hash k\<close> is \<^verbatim>\<open>hash(k)\<close>, which raises
  \<^verbatim>\<open>TypeError\<close> for an unhashable key, and \<open>py_eq k' k\<close> is the comparison
  \<^verbatim>\<open>k' is k or k' == k\<close> of a stored key with a new one, which returns a truth value or
  raises (a class may refuse the comparison with another class).
\<close>

type_synonym ('h, 'v) pydict = "('h \<times> 'v \<times> 'v) list"

text \<open>
  The store \<^verbatim>\<open>d[k] = v\<close> for a key with hash \<open>h\<close>. The stored keys with the same hash
  are compared with \<open>k\<close>, in the order of their insertion; the first one that compares
  equal keeps its place and its key and takes the new value; a comparison that raises
  ends the store with its exception; with no equal key the new slot is added at the
  end. Keys with another hash are not compared.
\<close>

fun insertdict ::
  "('v \<Rightarrow> 'v \<Rightarrow> py_error + bool) \<Rightarrow> 'h \<Rightarrow> 'v \<Rightarrow> 'v \<Rightarrow> ('h, 'v) pydict \<Rightarrow>
     py_error + ('h, 'v) pydict" where
  "insertdict py_eq h k v [] = Inr [(h, k, v)]"
| "insertdict py_eq h k v ((h', k', v') # slots) =
     (if h' = h then
        (case py_eq k' k of
           Inl ex \<Rightarrow> Inl ex
         | Inr b \<Rightarrow>
             if b then Inr ((h', k', v) # slots)
             else map_sum id (\<lambda>r. (h', k', v') # r) (insertdict py_eq h k v slots))
      else map_sum id (\<lambda>r. (h', k', v') # r) (insertdict py_eq h k v slots))"

definition setitem ::
  "('v \<Rightarrow> py_error + 'h) \<Rightarrow> ('v \<Rightarrow> 'v \<Rightarrow> py_error + bool) \<Rightarrow> ('h, 'v) pydict \<Rightarrow>
     'v \<Rightarrow> 'v \<Rightarrow> py_error + ('h, 'v) pydict" where
  "setitem py_hash py_eq d k v =
     (case py_hash k of Inl ex \<Rightarrow> Inl ex | Inr h \<Rightarrow> insertdict py_eq h k v d)"

text \<open>\<^verbatim>\<open>d.items()\<close>: the pairs of key and value, in insertion order.\<close>

definition dict_items :: "('h, 'v) pydict \<Rightarrow> ('v \<times> 'v) list" where
  "dict_items d = map (\<lambda>(h, k, v). (k, v)) d"

text \<open>
  The key expression and the value expression of the comprehension
  \<^verbatim>\<open>{e["key"].cel_value: e["value"].cel_value for d in self.items for e in d.key_value}\<close>
  for one \<^verbatim>\<open>e\<close>: the key is evaluated first, then the value.
\<close>

definition entry_item ::
  "('n \<Rightarrow> py_error + 'v) \<Rightarrow> (string \<times> 'n) list \<Rightarrow> py_error + ('v \<times> 'v)" where
  "entry_item cv e =
     (case getitem e ''key'' of Inl x \<Rightarrow> Inl x | Inr kn \<Rightarrow>
      case cv kn of Inl x \<Rightarrow> Inl x | Inr k \<Rightarrow>
      case getitem e ''value'' of Inl x \<Rightarrow> Inl x | Inr vn \<Rightarrow>
      case cv vn of Inl x \<Rightarrow> Inl x | Inr v \<Rightarrow> Inr (k, v))"

text \<open>
  The comprehension over the entries \<open>es\<close>, from the dict \<open>d\<close> filled so far: for each
  entry the two expressions, then the store; the first exception ends it.
\<close>

fun comprehension ::
  "((string \<times> 'n) list \<Rightarrow> py_error + ('v \<times> 'v)) \<Rightarrow> ('v \<Rightarrow> py_error + 'h) \<Rightarrow>
     ('v \<Rightarrow> 'v \<Rightarrow> py_error + bool) \<Rightarrow> (string \<times> 'n) list list \<Rightarrow> ('h, 'v) pydict \<Rightarrow>
     py_error + ('h, 'v) pydict" where
  "comprehension item py_hash py_eq [] d = Inr d"
| "comprehension item py_hash py_eq (e # es) d =
     (case item e of
        Inl x \<Rightarrow> Inl x
      | Inr (k, v) \<Rightarrow>
          (case setitem py_hash py_eq d k v of
             Inl x \<Rightarrow> Inl x
           | Inr d' \<Rightarrow> comprehension item py_hash py_eq es d'))"

text \<open>
  Modelled from the spec: \<^verbatim>\<open>celpy.celtypes.MapType\<close>, a class whose source is not part
  of the given file. Applied to a dict it is ``a single runtime map'' with the items of
  the dict, kept here as the list of these items.
\<close>

definition MapType :: "('h, 'v) pydict \<Rightarrow> ('v \<times> 'v) list" where
  "MapType d = dict_items d"

text \<open>\<^verbatim>\<open>MapValue.cel_value\<close>.\<close>

definition MapValue_cel_value ::
  "('n \<Rightarrow> py_error + 'v) \<Rightarrow> ('v \<Rightarrow> py_error + 'h) \<Rightarrow> ('v \<Rightarrow> 'v \<Rightarrow> py_error + bool) \<Rightarrow>
     'n MapValue \<Rightarrow> py_error + ('v \<times> 'v) list" where
  "MapValue_cel_value cv py_hash py_eq mv =
     map_sum id MapType
       (comprehension (entry_item cv) py_hash py_eq (concat (map key_value (items mv))) [])"



section \<open>Type Environment Builder\<close>

text \<open>
  The \<^verbatim>\<open>MagicMock\<close> objects that \<^verbatim>\<open>cel\<close> builds are opaque here and known by the name
  they are created with. A \<^verbatim>\<open>TypeEnv\<close> is a \<^verbatim>\<open>NamedTuple\<close> of \<^verbatim>\<open>name\<close>, \<^verbatim>\<open>kind\<close> and
  \<^verbatim>\<open>type_ident\<close>; \<^verbatim>\<open>kind\<close> is a member of the string enum \<^verbatim>\<open>TypeKind\<close> or a plain
  string (\<^verbatim>\<open>cel\<close> passes \<^verbatim>\<open>"primitive"\<close>), compared as a string; \<^verbatim>\<open>type_ident\<close> is one
  type name, a list of type names, or a mock class.
\<close>

datatype mock = MagicMock string

datatype type_ident = TypeName string | TypeNames "string list" | MockClass mock

record TypeEnv =
  name :: string
  kind :: string
  type_ident :: type_ident

definition MAP_TYPE :: string where
  "MAP_TYPE = ''map_type''"

text \<open>\<^verbatim>\<open>sep.join(xs)\<close>.\<close>

fun join :: "string \<Rightarrow> string list \<Rightarrow> string" where
  "join sep [] = []"
| "join sep [x] = x"
| "join sep (x # y # ys) = x @ sep @ join sep (y # ys)"

text \<open>
  What \<^verbatim>\<open>join\<close> iterates over in \<^verbatim>\<open>', '.join(self.type_ident)\<close>: the names of a list,
  the characters of a single name, nothing for a \<^verbatim>\<open>MagicMock\<close>.
\<close>

fun iter_type_ident :: "type_ident \<Rightarrow> string list" where
  "iter_type_ident (TypeNames xs) = xs"
| "iter_type_ident (TypeName s) = map (\<lambda>c. [c]) s"
| "iter_type_ident (MockClass m) = []"

definition annotation :: "TypeEnv \<Rightarrow> string \<times> type_ident" where
  "annotation te =
     (if kind te = MAP_TYPE then
        (name te, TypeName (''Map['' @ join '', '' (iter_type_ident (type_ident te)) @ '']''))
      else (name te, type_ident te))"

text \<open>\<^verbatim>\<open>dict(pairs)\<close>: a later pair with the same key replaces an earlier one.\<close>

definition dict :: "('k \<times> 'v) list \<Rightarrow> ('k \<rightharpoonup> 'v)" where
  "dict pairs = map_of (rev pairs)"

section \<open>Evaluation Orchestrator\<close>

text \<open>
  \<^verbatim>\<open>context.data\<close>, the scenario bag, with the keys that \<^verbatim>\<open>cel\<close> and the steps around
  it read and write. \<^verbatim>\<open>container\<close>, \<^verbatim>\<open>bindings\<close> and \<^verbatim>\<open>expr\<close> are set before \<^verbatim>\<open>cel\<close>
  runs (by the hook that allocates the bag, which is not in the given file, and by the
  \<^verbatim>\<open>given\<close> and \<^verbatim>\<open>when\<close> steps). For the keys whose presence the source tests or
  depends on, \<open>None\<close> is a missing key: \<^verbatim>\<open>type_env\<close>, \<^verbatim>\<open>result\<close>, \<^verbatim>\<open>error\<close> and the four
  mock entries. For \<^verbatim>\<open>error\<close>, \<open>Some None\<close> is the stored value \<^verbatim>\<open>None\<close> and
  \<open>Some (Some msg)\<close> a stored message. The runtime values of the evaluator are the
  type \<open>'v\<close>.
\<close>

record 'v data =
  container :: string
  type_env :: "TypeEnv list option"
  bindings :: "string \<rightharpoonup> 'v"
  expr :: string
  result :: "'v option"
  error :: "string option option"
  test_all_types :: "mock option"
  test_all_types_instance :: "mock option"
  nested_test_all_types :: "mock option"
  nested_test_all_types_instance :: "mock option"

text \<open>
  The evaluator, \<^verbatim>\<open>celpy\<close>, is external. \<open>program\<close> stands for
  \<^verbatim>\<open>Environment(package=..., annotations=...)\<close>, \<^verbatim>\<open>env.compile(expr)\<close> and
  \<^verbatim>\<open>env.program(ast)\<close>, which run outside the \<^verbatim>\<open>try\<close>; \<open>evaluate\<close> stands for
  \<^verbatim>\<open>prgm.evaluate(activation)\<close>, which runs inside it. Either may raise;
  \<open>CELEvalError msg\<close> is a \<^verbatim>\<open>CELEvalError\<close> whose first argument, \<^verbatim>\<open>ex.args[0]\<close>, is
  the message \<open>msg\<close>.
\<close>

datatype raised = CELEvalError string | Other py_error

record ('v, 'p) celpy =
  program :: "string \<Rightarrow> (string \<rightharpoonup> type_ident) \<Rightarrow> string \<Rightarrow> raised + 'p"
  evaluate :: "'p \<Rightarrow> (string \<rightharpoonup> 'v) \<Rightarrow> raised + 'v"

text \<open>
  The first part of \<^verbatim>\<open>cel\<close>: with a non-empty container, two mock types are appended
  to \<^verbatim>\<open>type_env\<close> (a \<^verbatim>\<open>KeyError\<close> if the bag has none) and the four mocks are stored.
\<close>

definition inject_test_types :: "'v data \<Rightarrow> raised + 'v data" where
  "inject_test_types d =
     (if container d \<noteq> [] then
        (case type_env d of
           None \<Rightarrow> Inl (Other KeyError)
         | Some tes \<Rightarrow>
             Inr (d\<lparr>type_env := Some (tes @
                      [\<lparr>name = container d @ ''.TestAllTypes'', kind = ''primitive'',
                        type_ident = MockClass (MagicMock ''TestAllTypes Class'')\<rparr>,
                       \<lparr>name = container d @ ''.NestedTestAllTypes'', kind = ''primitive'',
                        type_ident = MockClass (MagicMock ''NestedTestAllTypes Class'')\<rparr>]),
                    test_all_types := Some (MagicMock ''TestAllTypes Class''),
                    test_all_types_instance := Some (MagicMock ''TestAllTypes Instance''),
                    nested_test_all_types := Some (MagicMock ''NestedTestAllTypes Class''),
                    nested_test_all_types_instance :=
                      Some (MagicMock ''NestedTestAllTypes Instance'')\<rparr>))
      else Inr d)"

definition types :: "'v data \<Rightarrow> (string \<rightharpoonup> type_ident)" where
  "types d = (case type_env d of None \<Rightarrow> Map.empty | Some tes \<Rightarrow> dict (map annotation tes))"

text \<open>
  \<^verbatim>\<open>cel(context)\<close>. The result is the bag as \<^verbatim>\<open>cel\<close> leaves it and the exception that
  leaves \<^verbatim>\<open>cel\<close>, if any. Only a \<^verbatim>\<open>CELEvalError\<close> of \<^verbatim>\<open>prgm.evaluate\<close> is caught; the
  \<^verbatim>\<open>except\<close> branch stores the message under \<^verbatim>\<open>error\<close> and does not touch \<^verbatim>\<open>result\<close>.
  The \<^verbatim>\<open>print\<close> of the activation is not part of the model.
\<close>

definition cel :: "('v, 'p) celpy \<Rightarrow> 'v data \<Rightarrow> 'v data \<times> raised option" where
  "cel celpy d =
     (case inject_test_types d of
        Inl ex \<Rightarrow> (d, Some ex)
      | Inr d1 \<Rightarrow>
         (case program celpy (container d1) (types d1) (expr d1) of
            Inl ex \<Rightarrow> (d1, Some ex)
          | Inr prgm \<Rightarrow>
             (case evaluate celpy prgm (bindings d1) of
                Inr r \<Rightarrow> (d1\<lparr>result := Some r, error := Some None\<rparr>, None)
              | Inl (CELEvalError msg) \<Rightarrow> (d1\<lparr>error := Some (Some msg)\<rparr>, None)
              | Inl (Other ex) \<Rightarrow> (d1, Some (Other ex)))))"

text \<open>
  The two \<^verbatim>\<open>when\<close> steps, \<^verbatim>\<open>CEL expression "{expr}" is evaluated\<close> with either quote.
\<close>

definition when_evaluated ::
  "('v, 'p) celpy \<Rightarrow> quote \<Rightarrow> 'v data \<Rightarrow> string \<Rightarrow> 'v data \<times> raised option" where
  "when_evaluated celpy quote d e = cel celpy (d\<lparr>expr := expand_textproto_escapes e quote\<rparr>)"

section \<open>Outcome Verifier\<close>

text \<open>\<^verbatim>\<open>context.config.userdata.get(key, default)\<close>.\<close>

definition userdata_get :: "(string \<rightharpoonup> string) \<Rightarrow> string \<Rightarrow> string \<Rightarrow> string" where
  "userdata_get userdata k dflt = (case userdata k of None \<Rightarrow> dflt | Some v \<Rightarrow> v)"

text \<open>
  The step \<^verbatim>\<open>then eval_error is "{text}"\<close>. It returns what it prints on \<^verbatim>\<open>stderr\<close>
  and the exception it raises, if any; the step passes when it raises none. A printed
  diagnostic is kept as the two categories it shows, expected first.
\<close>

datatype diagnostic = Mismatch "ErrorCategory option" "ErrorCategory option"

definition eval_error_is ::
  "(string \<rightharpoonup> string) \<Rightarrow> 'v data \<Rightarrow> string \<Rightarrow> diagnostic list \<times> py_error option" where
  "eval_error_is userdata d text =
     (case error d of
        None \<Rightarrow> ([], Some KeyError)
      | Some err \<Rightarrow>
         (case error_category (or_empty err) of
            Inl ex \<Rightarrow> ([], Some ex)
          | Inr actual_ec \<Rightarrow>
             (case error_category text of
                Inl ex \<Rightarrow> ([], Some ex)
              | Inr expected_ec \<Rightarrow>
                 if userdata_get userdata ''match'' ''any'' = ''exact'' then
                   (if expected_ec = actual_ec then ([], None) else ([], Some AssertionError))
                 else
                   (if expected_ec \<noteq> actual_ec then [Mismatch expected_ec actual_ec] else [],
                    if err \<noteq> None then None else Some AssertionError))))"

text \<open>The step \<^verbatim>\<open>then eval_error is None\<close>.\<close>

definition eval_error_is_None :: "'v data \<Rightarrow> py_error option" where
  "eval_error_is_None d =
     (case error d of
        None \<Rightarrow> Some KeyError
      | Some err \<Rightarrow> if err = None then None else Some AssertionError)"

section \<open>Example scenarios\<close>

text \<open>
  Concrete inputs at which the theorems below are instantiated: a bag as it is before
  the first evaluation of a scenario, with integers as runtime values; an evaluator whose
  evaluation raises \<^verbatim>\<open>CELEvalError("divide by zero")\<close> and one that returns 42;
  constructors for \<^verbatim>\<open>celtypes\<close> that keep the payload; a \<^verbatim>\<open>MapValue\<close> of two groups
  in which the key \<^verbatim>\<open>"a"\<close> comes twice; a hash under which all keys collide, and a
  comparison that never raises.
\<close>

definition example_bag :: "int data" where
  "example_bag =
     \<lparr>container = [], type_env = Some [], bindings = Map.empty, expr = ''1 / 0'',
      result = None, error = None, test_all_types = None, test_all_types_instance = None,
      nested_test_all_types = None, nested_test_all_types_instance = None\<rparr>"








text \<open>
  A second set of constructors, whose objects carry the name of their class, with a
  comparison that raises \<^verbatim>\<open>TypeError\<close> between objects of two classes, and a map with
  the keys int 1, uint 1 and uint 1.
\<close>

definition example_typed_celtypes :: "(int, int, string \<times> int payload) celtypes" where
  "example_typed_celtypes =
     \<lparr>IntType = (\<lambda>p. Inr (''IntType'', p)), UintType = (\<lambda>p. Inr (''UintType'', p)),
      StringType = (\<lambda>p. Inr (''StringType'', p)), BytesType = (\<lambda>p. Inr (''BytesType'', p)),
      BoolType = (\<lambda>p. Inr (''BoolType'', p)), float = (\<lambda>p. Inl ValueError)\<rparr>"

fun example_type_matched_eq ::
  "(int, string \<times> int payload) cel \<Rightarrow> (int, string \<times> int payload) cel \<Rightarrow> py_error + bool" where
  "example_type_matched_eq (Object (c, p)) (Object (c', p')) =
     (if c = c' then Inr (p = p') else Inl TypeError)"
| "example_type_matched_eq a b = Inr (a = b)"

definition example_mixed_map :: "int Value MapValue" where
  "example_mixed_map =
     MapValue [Entries
       [[(''key'', Value ''int64_value'' (PyObj 1)), (''value'', Value ''int64_value'' (PyObj 10))],
        [(''key'', Value ''uint64_value'' (PyObj 1)), (''value'', Value ''int64_value'' (PyObj 20))],
        [(''key'', Value ''uint64_value'' (PyObj 1)), (''value'', Value ''int64_value'' (PyObj 30))]]]"

section \<open>Properties of the Error Classifier\<close>

lemma contains_getitem: "contains d k \<Longrightarrow> \<exists>v. getitem d k = Inr v"
  by (induction d) (auto simp: contains_def getitem_def)

lemma startswith_not_member:
  "startswith text ''undeclared reference'' \<Longrightarrow> \<not> contains ErrorCategory_members text"
  by (auto simp: startswith_def contains_def ErrorCategory_members_def)

lemma startswith_not_alias:
  "startswith text ''undeclared reference'' \<Longrightarrow> \<not> contains ERROR_ALIASES text"
  by (auto simp: startswith_def contains_def ERROR_ALIASES_def)

lemma error_category_total: "\<exists>c. error_category text = Inr c"
  using contains_getitem[of ErrorCategory_members "text"]
    contains_getitem[of ERROR_ALIASES "text"]
  by (auto simp: error_category_def)

lemma error_category_None_iff:
  "(error_category text = Inr None) =
     (\<not> contains ErrorCategory_members text \<and> \<not> contains ERROR_ALIASES text \<and>
      \<not> startswith text ''undeclared reference'')"
  using contains_getitem[of ErrorCategory_members "text"]
    contains_getitem[of ERROR_ALIASES "text"]
  by (auto simp: error_category_def)

lemma error_category_empty: "error_category [] = Inr None"
  by (simp add: error_category_def contains_def startswith_def
      ErrorCategory_members_def ERROR_ALIASES_def)

text \<open>
  C3, as the specification states it: the outcome for an absent message (``no error'')
  differs from the outcome for a text that cannot be classified (``unclassified'').
  The step that classifies the captured error calls
  \<^verbatim>\<open>error_category(context.data['error'] or "")\<close>, so an absent message is classified
  as the empty string, and both outcomes are the same \<^verbatim>\<open>None\<close>.
\<close>

theorem error_category_absent_eq_unclassified:
  "error_category (or_empty None) = error_category ''no such key''"
  by (simp add: error_category_def contains_def startswith_def or_empty_def
      ErrorCategory_members_def ERROR_ALIASES_def)

text \<open>
  C3, amended. The classifier never raises and maps every text to one of the six
  declared categories or to \<^verbatim>\<open>None\<close>; it returns \<^verbatim>\<open>None\<close> exactly for the texts
  that are no member name, no alias and no undeclared-reference message; an absent
  message is classified through the empty string and gets that same \<^verbatim>\<open>None\<close>.
\<close>

theorem error_category_total_absent_None:
  "(\<exists>c. error_category text = Inr c) \<and>
   (error_category text = Inr None) =
     (\<not> contains ErrorCategory_members text \<and> \<not> contains ERROR_ALIASES text \<and>
      \<not> startswith text ''undeclared reference'') \<and>
   error_category (or_empty None) = Inr None"
  by (simp add: error_category_total error_category_None_iff [symmetric]
      error_category_empty or_empty_def)

theorem error_category_total_absent_None_witness:
  "(\<exists>c. error_category ''divide by zero'' = Inr c) \<and>
   error_category ''divide by zero'' = Inr (Some divide_by_zero) \<and>
   contains ERROR_ALIASES ''divide by zero'' \<and>
   error_category (or_empty None) = Inr None"
  using error_category_total_absent_None [of "''divide by zero''"]
  by (simp add: error_category_def contains_def getitem_def
      ErrorCategory_members_def ERROR_ALIASES_def)

text \<open>
  C7. A text that starts with \<^verbatim>\<open>"undeclared reference"\<close> is classified as
  \<open>undeclared_reference\<close>, whatever follows the prefix: no member name and no alias
  starts with these twenty characters, so the first two tests of the classifier fail.
\<close>

theorem error_category_undeclared_reference_prefix:
  "startswith text ''undeclared reference'' \<Longrightarrow>
     error_category text = Inr (Some undeclared_reference)"
  by (simp add: error_category_def startswith_not_member startswith_not_alias)

theorem error_category_undeclared_reference_prefix_witness:
  "startswith (''undeclared reference to '' @ [CHR 0x27] @ ''x'' @ [CHR 0x27] @
       '' (in container '' @ [CHR 0x27, CHR 0x27] @ '')'') ''undeclared reference'' \<and>
   error_category (''undeclared reference to '' @ [CHR 0x27] @ ''x'' @ [CHR 0x27] @
       '' (in container '' @ [CHR 0x27, CHR 0x27] @ '')'') = Inr (Some undeclared_reference)"
  using error_category_undeclared_reference_prefix
    [of "''undeclared reference to '' @ [CHR 0x27] @ ''x'' @ [CHR 0x27] @
       '' (in container '' @ [CHR 0x27, CHR 0x27] @ '')''"]
  by (simp add: startswith_def)

text \<open>
  C10. The alias table knows only the misspelled phrase: \<^verbatim>\<open>"unknown varaible"\<close> is
  classified as \<open>unknown_variable\<close>, the correctly spelled \<^verbatim>\<open>"unknown variable"\<close> is
  neither a member name nor an alias nor an undeclared-reference message, and the
  classifier returns \<^verbatim>\<open>None\<close> for it.
\<close>

theorem error_category_unknown_variable_alias:
  "error_category ''unknown varaible'' = Inr (Some unknown_variable) \<and>
   error_category ''unknown variable'' = Inr None"
  by (simp add: error_category_def contains_def getitem_def startswith_def
      ErrorCategory_members_def ERROR_ALIASES_def)

section \<open>Properties of the Escape Normalizer\<close>

lemma expand_textproto_escapes_expansion:
  "expand_textproto_escapes t quote = expansion (quote_chr quote) t"
  by (simp add: expand_textproto_escapes_def expansion_def)

lemma expansion_simps:
  "expansion q [] = []"
  "expansion q [c] = (if c = newline then [] else [c])"
  "expansion q (c # d # cs) =
     (if c = backslash \<and> d = q then q # expansion q cs
      else if c = newline then expansion q (d # cs)
      else c # expansion q (d # cs))"
  by (auto simp: expansion_def replacements_get_def)

lemma quote_chr_neq: "quote_chr q \<noteq> backslash" "quote_chr q \<noteq> newline"
  by (cases q; simp add: backslash_def newline_def)+

lemma bs_neq_nl: "backslash \<noteq> newline" by (simp add: backslash_def newline_def)

lemma expansion_no_newline: "q \<noteq> newline \<Longrightarrow> newline \<notin> set (expansion q t)"
  by (induction q t rule: finditer.induct) (auto simp: expansion_simps)

lemma expansion_length: "length (expansion q t) \<le> length t"
  by (induction q t rule: finditer.induct) (auto simp: expansion_simps)

lemma expansion_unit_shorter: "has_unit q t \<Longrightarrow> length (expansion q t) < length t"
proof (induction q t rule: finditer.induct)
  case (3 q c d cs)
  show ?case
  proof (cases "c = backslash \<and> d = q")
    case True
    then show ?thesis using expansion_length[of q cs] by (simp add: expansion_simps)
  next
    case False
    then have "has_unit q (d # cs)" using "3.prems" by auto
    then have "length (expansion q (d # cs)) < length (d # cs)" using "3.IH" False by blast
    then show ?thesis using False by (auto simp add: expansion_simps)
  qed
qed simp_all

lemma expansion_id: "newline \<notin> set t \<Longrightarrow> \<not> has_unit q t \<Longrightarrow> expansion q t = t"
  by (induction q t rule: finditer.induct) (auto simp: expansion_simps)

lemma expansion_fixed_iff: "newline \<notin> set t \<Longrightarrow> (expansion q t = t) = (\<not> has_unit q t)"
  using expansion_id[of t q] expansion_unit_shorter[of q t] by auto

lemma expansion_Cons: "c \<noteq> newline \<Longrightarrow> expansion q (c # cs) =
   (case cs of d # ds \<Rightarrow> if c = backslash \<and> d = q then q # expansion q ds else c # expansion q cs
      | [] \<Rightarrow> [c])"
  by (cases cs) (auto simp: expansion_simps)

lemma has_unit_expansion: "q \<noteq> backslash \<Longrightarrow> newline \<notin> set t \<Longrightarrow>
   has_unit q (expansion q t) = has_escaped_unit q t"
proof (induction q t rule: finditer.induct)
  case (3 q c d cs)
  show ?case
  proof (cases "c = backslash \<and> d = q")
    case True
    have a: "has_unit q (q # ys) = has_unit q ys" for ys using "3.prems" by (cases ys) auto
    have b: "has_escaped_unit q (backslash # q # ys) = has_escaped_unit q ys" for ys
    proof (cases ys)
      case (Cons y zs)
      then show ?thesis using "3.prems" by (cases zs) auto
    qed simp
    show ?thesis using True "3.IH" "3.prems" by (simp add: expansion_simps a b)
  next
    case False
    have nl: "c \<noteq> newline" "d \<noteq> newline" "newline \<notin> set cs" using "3.prems" by auto
    have ih: "has_unit q (expansion q (d # cs)) = has_escaped_unit q (d # cs)"
      using "3.IH" False nl "3.prems" by simp
    have e: "expansion q (c # d # cs) = c # expansion q (d # cs)" using False nl by (auto simp add: expansion_simps)
    show ?thesis
    proof (cases cs)
      case Nil
      then show ?thesis using False nl by (auto simp add: expansion_simps)
    next
      case (Cons x xs)
      show ?thesis
      proof (cases "d = backslash \<and> x = q")
        case True
        then show ?thesis using ih e Cons False nl by (auto simp add: expansion_simps)
      next
        case F2: False
        then have "expansion q (d # cs) = d # expansion q cs" using Cons nl by (auto simp add: expansion_simps)
        then show ?thesis using ih e Cons False F2 nl by auto
      qed
    qed
  qed
qed (simp_all add: expansion_simps)

text \<open>
  C1. The docstring promises that the escaped quote is translated and ``everything else
  is left alone''. The text \<^verbatim>\<open>"a\nb"\<close> has no backslash at all, so no
  backslash-quote unit, and yet the normalizer returns \<^verbatim>\<open>"ab"\<close>: the pattern's
  \<^verbatim>\<open>.\<close> does not match the line feed, \<^verbatim>\<open>finditer\<close> skips it, and the join of the
  matches loses it.
\<close>

theorem expand_textproto_escapes_drops_newline:
  "\<not> has_unit (quote_chr DoubleQuote) [CHR ''a'', newline, CHR ''b''] \<and>
   expand_textproto_escapes [CHR ''a'', newline, CHR ''b''] DoubleQuote = ''ab''"
  by (simp add: expand_textproto_escapes_def replacements_get_def newline_def backslash_def)

text \<open>
  On the texts that have no line feed the promise of the docstring holds: such a text
  without backslash-quote unit is returned as it is.
\<close>

lemma expand_textproto_escapes_identity:
  "newline \<notin> set t \<Longrightarrow> \<not> has_unit (quote_chr quote) t \<Longrightarrow>
     expand_textproto_escapes t quote = t"
  by (simp add: expand_textproto_escapes_expansion expansion_id)

text \<open>
  C2, as the specification states it: normalizing twice is normalizing once. The text
  of two backslashes and a double quote is normalized to a backslash and a double quote
  (the scan takes the first backslash alone, then the unit), and that result is
  normalized to the bare double quote.
\<close>

theorem expand_textproto_escapes_not_idempotent:
  "expand_textproto_escapes
      (expand_textproto_escapes [backslash, backslash, CHR 0x22] DoubleQuote) DoubleQuote
     \<noteq> expand_textproto_escapes [backslash, backslash, CHR 0x22] DoubleQuote"
  by (simp add: expand_textproto_escapes_def replacements_get_def newline_def backslash_def)

text \<open>
  C2, amended. For a text without line feed and either quote character, normalizing
  twice gives the same as normalizing once exactly when the text has no two backslashes
  immediately followed by the quote character.
\<close>

theorem expand_textproto_escapes_idempotent_iff:
  "newline \<notin> set t \<Longrightarrow>
     (expand_textproto_escapes (expand_textproto_escapes t quote) quote
        = expand_textproto_escapes t quote)
     = (\<not> has_escaped_unit (quote_chr quote) t)"
  using expansion_fixed_iff [of "expansion (quote_chr quote) t" "quote_chr quote"]
    expansion_no_newline [of "quote_chr quote" t]
    has_unit_expansion [of "quote_chr quote" t] quote_chr_neq [of quote]
  by (simp add: expand_textproto_escapes_expansion)

theorem expand_textproto_escapes_idempotent_iff_witness:
  "newline \<notin> set (''say '' @ [backslash, CHR 0x22] @ ''hi'' @ [backslash, CHR 0x22]) \<and>
   \<not> has_escaped_unit (quote_chr DoubleQuote)
       (''say '' @ [backslash, CHR 0x22] @ ''hi'' @ [backslash, CHR 0x22]) \<and>
   expand_textproto_escapes (expand_textproto_escapes
       (''say '' @ [backslash, CHR 0x22] @ ''hi'' @ [backslash, CHR 0x22]) DoubleQuote) DoubleQuote
     = expand_textproto_escapes
       (''say '' @ [backslash, CHR 0x22] @ ''hi'' @ [backslash, CHR 0x22]) DoubleQuote"
  using expand_textproto_escapes_idempotent_iff
    [of "''say '' @ [backslash, CHR 0x22] @ ''hi'' @ [backslash, CHR 0x22]" DoubleQuote]
  by (simp add: newline_def backslash_def)

section \<open>Properties of the Value Translator\<close>

text \<open>
  C8. A \<^verbatim>\<open>Value\<close> of kind \<^verbatim>\<open>double_value\<close> with payload \<^verbatim>\<open>"inf"\<close> is translated to
  positive infinity, one with payload \<^verbatim>\<open>"-inf"\<close> to negative infinity, and the second
  translation is the negation of the first, whatever the other constructors of
  \<^verbatim>\<open>celtypes\<close> do.
\<close>

theorem cel_value_double_sentinels:
  "cel_value ct (Value ''double_value'' (PyStr ''inf'')) = Inr (Double PosInf) \<and>
   cel_value ct (Value ''double_value'' (PyStr ''-inf'')) = Inr (Double NegInf) \<and>
   cel_value ct (Value ''double_value'' (PyStr ''-inf'')) =
     map_sum id (\<lambda>c. case c of Double x \<Rightarrow> Double (neg x) | y \<Rightarrow> y)
       (cel_value ct (Value ''double_value'' (PyStr ''inf'')))"
  by (simp add: DoubleType_def)

subsection \<open>The dict comprehension of MapValue\<close>








text \<open>
  Where the comparison of two keys raises, so does the comprehension: with keys of two
  classes that have the same hash and refuse to be compared, the second store ends
  \<^verbatim>\<open>MapValue.cel_value\<close> with \<^verbatim>\<open>TypeError\<close>.
\<close>

lemma MapValue_cel_value_comparison_raises:
  "MapValue_cel_value (cel_value example_typed_celtypes) (\<lambda>k. Inr (0::nat))
     example_type_matched_eq example_mixed_map = Inl TypeError"
  by (simp add: MapValue_cel_value_def example_mixed_map_def example_typed_celtypes_def
      entry_item_def getitem_def setitem_def)

section \<open>Properties of the Evaluation Orchestrator\<close>

lemma inject_test_types_keeps:
  "inject_test_types d = Inr d1 \<Longrightarrow>
     result d1 = result d \<and> error d1 = error d \<and> container d1 = container d \<and>
     expr d1 = expr d \<and> bindings d1 = bindings d"
  by (auto simp: inject_test_types_def split: if_splits option.splits)

text \<open>
  The \<^verbatim>\<open>except\<close> branch writes the key \<^verbatim>\<open>error\<close> only: whatever the bag holds under
  \<^verbatim>\<open>result\<close> when \<^verbatim>\<open>cel\<close> starts is still there after a captured error. An exception
  other than a \<^verbatim>\<open>CELEvalError\<close> of the evaluation leaves \<^verbatim>\<open>cel\<close>, and neither key is
  written.
\<close>

lemma cel_error_keeps_result:
  assumes "inject_test_types d = Inr d1"
    and "program celpy (container d1) (types d1) (expr d1) = Inr prgm"
    and "evaluate celpy prgm (bindings d1) = Inl (CELEvalError msg)"
  shows "cel celpy d = (d1\<lparr>error := Some (Some msg)\<rparr>, None) \<and>
         result (fst (cel celpy d)) = result d"
  using assms inject_test_types_keeps[OF assms(1)] by (simp add: cel_def)

lemma cel_other_exception_propagates:
  assumes "inject_test_types d = Inr d1"
    and "program celpy (container d1) (types d1) (expr d1) = Inr prgm"
    and "evaluate celpy prgm (bindings d1) = Inl (Other ex)"
  shows "cel celpy d = (d1, Some (Other ex)) \<and>
         result (fst (cel celpy d)) = result d \<and> error (fst (cel celpy d)) = error d"
  using assms inject_test_types_keeps[OF assms(1)] by (simp add: cel_def)



section \<open>Properties of the Outcome Verifier\<close>

lemma or_empty_Some: "or_empty (Some msg) = msg"
  by (simp add: or_empty_def)

text \<open>
  With no error captured, the step fails under the policy \<^verbatim>\<open>any\<close>, whatever the
  expected text; under \<^verbatim>\<open>exact\<close> it fails if and only if the expected text has a
  category.
\<close>

lemma eval_error_is_any_no_error:
  "userdata_get ud ''match'' ''any'' \<noteq> ''exact'' \<Longrightarrow> error d = Some None \<Longrightarrow>
     snd (eval_error_is ud d text) = Some AssertionError"
  using error_category_total[of "text"]
  by (auto simp: eval_error_is_def or_empty_def error_category_empty)

lemma eval_error_is_exact_no_error:
  "userdata_get ud ''match'' ''any'' = ''exact'' \<Longrightarrow> error d = Some None \<Longrightarrow>
     eval_error_is ud d text =
       ([], if error_category text = Inr None then None else Some AssertionError)"
  using error_category_total[of "text"]
  by (auto simp: eval_error_is_def or_empty_def error_category_empty)

text \<open>
  C4. The claim: when no error was captured, the step \<^verbatim>\<open>then eval_error is "{text}"\<close>
  fails under both policies. Under \<^verbatim>\<open>exact\<close> the code asserts the equality of the
  two categories only. With the stored error \<^verbatim>\<open>None\<close> and the expected text
  \<^verbatim>\<open>"unknown variable"\<close>, which has no category, both categories are \<^verbatim>\<open>None\<close>, and the
  step passes: it raises nothing and prints nothing.
\<close>

theorem eval_error_is_exact_passes_without_error:
  "eval_error_is [''match'' \<mapsto> ''exact''] (example_bag\<lparr>error := Some None\<rparr>)
     ''unknown variable'' = ([], None)"
  by (simp add: eval_error_is_def userdata_get_def or_empty_def error_category_def
      contains_def startswith_def getitem_def ErrorCategory_members_def ERROR_ALIASES_def
      example_bag_def)

text \<open>
  C6. Let an error message be captured, with category \<open>A\<close>, and let the expected text
  have the category \<open>B\<close>, different from \<open>A\<close> (either may be \<^verbatim>\<open>None\<close>). Under the policy
  \<^verbatim>\<open>exact\<close> the step raises \<^verbatim>\<open>AssertionError\<close>; under any other setting of \<^verbatim>\<open>match\<close>
  (the default is \<^verbatim>\<open>any\<close>) it prints the diagnostic and passes.
\<close>

theorem eval_error_is_category_mismatch:
  assumes "error d = Some (Some msg)"
    and "error_category (or_empty (Some msg)) = Inr A"
    and "error_category text = Inr B"
    and "A \<noteq> B"
  shows "eval_error_is ud d text =
     (if userdata_get ud ''match'' ''any'' = ''exact'' then ([], Some AssertionError)
      else ([Mismatch B A], None))"
  using assms by (auto simp: eval_error_is_def)

theorem eval_error_is_category_mismatch_witness:
  "error_category (or_empty (Some ''divide by zero'')) = Inr (Some divide_by_zero) \<and>
   error_category ''no matching overload'' = Inr (Some no_such_overload) \<and>
   eval_error_is Map.empty (example_bag\<lparr>error := Some (Some ''divide by zero'')\<rparr>)
     ''no matching overload''
     = ([Mismatch (Some no_such_overload) (Some divide_by_zero)], None) \<and>
   eval_error_is [''match'' \<mapsto> ''exact'']
     (example_bag\<lparr>error := Some (Some ''divide by zero'')\<rparr>) ''no matching overload''
     = ([], Some AssertionError)"
  using eval_error_is_category_mismatch
    [of "example_bag\<lparr>error := Some (Some ''divide by zero'')\<rparr>" "''divide by zero''"
      "Some divide_by_zero" "''no matching overload''" "Some no_such_overload" Map.empty]
    eval_error_is_category_mismatch
    [of "example_bag\<lparr>error := Some (Some ''divide by zero'')\<rparr>" "''divide by zero''"
      "Some divide_by_zero" "''no matching overload''" "Some no_such_overload"
      "[''match'' \<mapsto> ''exact'']"]
  by (simp add: userdata_get_def or_empty_def error_category_def contains_def
      startswith_def getitem_def ErrorCategory_members_def ERROR_ALIASES_def)

end
